theory Spec2Isabelle
  imports Main
begin

section \<open>Python text primitives\<close>

text \<open>
  Text is modelled as a list of characters with code points 0 to 255. The character
  classes below are the ones Python 3 gives those code points: \<open>str.isspace\<close>,
  \<open>str.lower\<close>, and the class \<open>\w\<close> of the \<open>re\<close> module on a \<open>str\<close> pattern
  (alphanumeric characters and the underscore).
\<close>

definition isspace :: "char \<Rightarrow> bool" where
  "isspace c =
     (let n = (of_char c :: nat)
      in (9 \<le> n \<and> n \<le> 13) \<or> (28 \<le> n \<and> n \<le> 32) \<or> n = 133 \<or> n = 160)"

definition lower_char :: "char \<Rightarrow> char" where
  "lower_char c =
     (let n = (of_char c :: nat)
      in if (65 \<le> n \<and> n \<le> 90) \<or> (192 \<le> n \<and> n \<le> 222 \<and> n \<noteq> 215)
         then char_of (n + 32) else c)"

definition lower :: "string \<Rightarrow> string" where
  "lower s = map lower_char s"

text \<open>\<open>s.replace(old, '', 1)\<close>: the first occurrence of \<open>old\<close> is removed.\<close>

fun remove_first :: "string \<Rightarrow> string \<Rightarrow> string" where
  "remove_first old [] = []"
| "remove_first old (c # cs) =
     (if take (length old) (c # cs) = old then drop (length old) (c # cs)
      else c # remove_first old cs)"

text \<open>\<open>rstrip_with p s\<close> drops the longest suffix of \<open>s\<close> whose characters satisfy \<open>p\<close>.\<close>

definition rstrip_with :: "(char \<Rightarrow> bool) \<Rightarrow> string \<Rightarrow> string" where
  "rstrip_with p s = rev (dropWhile p (rev s))"

definition strip :: "string \<Rightarrow> string" where
  "strip s = rstrip_with isspace (dropWhile isspace s)"

text \<open>
  \<open>voice_command.lower().replace(self.keyword, '', 1).strip()\<close>, the first statement of
  every \<open>run\<close> below.
\<close>

definition command_argument :: "string \<Rightarrow> string \<Rightarrow> string" where
  "command_argument kw voice_command = strip (remove_first kw (lower voice_command))"

definition is_digit :: "char \<Rightarrow> bool" where
  "is_digit c = (let n = (of_char c :: nat) in 48 \<le> n \<and> n \<le> 57)"

definition is_word_char :: "char \<Rightarrow> bool" where
  "is_word_char c =
     (let n = (of_char c :: nat)
      in (48 \<le> n \<and> n \<le> 57) \<or> (65 \<le> n \<and> n \<le> 90) \<or> n = 95 \<or> (97 \<le> n \<and> n \<le> 122)
         \<or> n = 170 \<or> n = 178 \<or> n = 179 \<or> n = 181 \<or> n = 185 \<or> n = 186
         \<or> (188 \<le> n \<and> n \<le> 190) \<or> (192 \<le> n \<and> n \<le> 214) \<or> (216 \<le> n \<and> n \<le> 246)
         \<or> (248 \<le> n \<and> n \<le> 255))"

text \<open>Decimal rendering, as \<open>%d\<close> and \<open>str\<close> give it for an integer.\<close>

fun digits :: "nat \<Rightarrow> string" where
  "digits n =
     (if n < 10 then [char_of (48 + n)] else digits (n div 10) @ [char_of (48 + n mod 10)])"

declare digits.simps [simp del]

definition str_int :: "int \<Rightarrow> string" where
  "str_int i = (if i < 0 then CHR ''-'' # digits (nat (- i)) else digits (nat i))"

text \<open>\<open>sep.join(xs)\<close>\<close>

fun join :: "string \<Rightarrow> string list \<Rightarrow> string" where
  "join sep [] = []"
| "join sep [x] = x"
| "join sep (x # y # ys) = x @ sep @ join sep (y # ys)"

section \<open>Python values, exceptions and effects\<close>

text \<open>
  The values the code reads out of the search results and the decoded JSON are dynamically
  typed. A dictionary is an association list looked up by key. Floating-point numbers
  are left out: the code reads none.
\<close>

datatype pyval =
    PNone
  | PBool bool
  | PInt int
  | PStr string
  | PList "pyval list"
  | PDict "(string \<times> pyval) list"

datatype exn =
    KeyError | IndexError | TypeError | AttributeError | ValueError | RuntimeError
  | URLError | DownloadError | CalledProcessError | OSError

text \<open>Truth value of an object, as \<open>if not x\<close> tests it.\<close>

fun truthy :: "pyval \<Rightarrow> bool" where
  "truthy PNone = False"
| "truthy (PBool b) = b"
| "truthy (PInt i) = (i \<noteq> 0)"
| "truthy (PStr s) = (s \<noteq> [])"
| "truthy (PList xs) = (xs \<noteq> [])"
| "truthy (PDict kvs) = (kvs \<noteq> [])"

text \<open>\<open>x[key]\<close> with a string key.\<close>

fun getitem :: "pyval \<Rightarrow> string \<Rightarrow> exn + pyval" where
  "getitem (PDict kvs) k = (case map_of kvs k of None \<Rightarrow> Inl KeyError | Some v \<Rightarrow> Inr v)"
| "getitem _ k = Inl TypeError"

text \<open>\<open>x[0]\<close>\<close>

fun getitem0 :: "pyval \<Rightarrow> exn + pyval" where
  "getitem0 (PList xs) = (case xs of [] \<Rightarrow> Inl IndexError | x # _ \<Rightarrow> Inr x)"
| "getitem0 (PStr s) = (case s of [] \<Rightarrow> Inl IndexError | c # _ \<Rightarrow> Inr (PStr [c]))"
| "getitem0 (PDict kvs) = Inl KeyError"
| "getitem0 _ = Inl TypeError"

text \<open>The elements a \<open>for\<close> loop visits.\<close>

fun iterate :: "pyval \<Rightarrow> exn + pyval list" where
  "iterate (PList xs) = Inr xs"
| "iterate (PStr s) = Inr (map (\<lambda>c. PStr [c]) s)"
| "iterate (PDict kvs) = Inr (map (\<lambda>kv. PStr (fst kv)) kvs)"
| "iterate _ = Inl TypeError"

text \<open>
  What the program does to the outside world, in order: speech, log records, shell
  commands, network requests and calls on the media player.
\<close>

datatype effect =
    Say string
  | LogInfo pyval
  | LogDebug pyval
  | LogException string
  | ShellCall string
  | ExtractInfo string
  | UrlOpen string
  | MediaNew pyval
  | SetMedia pyval
  | PlayerPlay
  | PlayerStop


text \<open>
  The collaborators outside this module, as functions the program calls: the
  \<open>youtube_dl\<close> search, an HTTP fetch (\<open>urlopen\<close> followed by \<open>read\<close>), \<open>json.loads\<close>,
  \<open>urllib.parse.quote\<close>, \<open>str\<close> of a container, \<open>subprocess.call\<close> and the volume read
  back by \<open>int(subprocess.check_output(GET_VOLUME, shell=True).strip())\<close>. Each either
  raises or returns.
\<close>

record env =
  extract_info :: "string \<Rightarrow> exn + pyval"
  urlopen_read :: "string \<Rightarrow> exn + string"
  json_loads :: "string \<Rightarrow> exn + pyval"
  quote :: "string \<Rightarrow> string"
  container_str :: "pyval \<Rightarrow> string"
  subprocess_call :: "string \<Rightarrow> exn + int"
  get_volume :: "exn + int"

text \<open>\<open>str(x)\<close>\<close>

fun py_str :: "'a env_scheme \<Rightarrow> pyval \<Rightarrow> string" where
  "py_str E (PStr s) = s"
| "py_str E (PInt i) = str_int i"
| "py_str E PNone = ''None''"
| "py_str E (PBool b) = (if b then ''True'' else ''False'')"
| "py_str E v = container_str E v"

section \<open>VolumeControl\<close>

record volume_control =
  vc_keyword :: string
  vc_value :: "int option"
  vc_effects :: "effect list"

text \<open>How a method ends: it returns, or an exception leaves it. Both carry the object.\<close>

datatype 'a outcome = Returns 'a | Raises exn 'a

fun state_of :: "'a outcome \<Rightarrow> 'a" where
  "state_of (Returns s) = s"
| "state_of (Raises e s) = s"

text \<open>\<open>SET_VOLUME % vol\<close>, with \<open>SET_VOLUME = 'amixer -q set Master %d%%'\<close>.\<close>

definition SET_VOLUME :: "int \<Rightarrow> string" where
  "SET_VOLUME vol = ''amixer -q set Master '' @ str_int vol @ ''%''"

definition VolumeControl_set :: "env \<Rightarrow> int \<Rightarrow> volume_control \<Rightarrow> volume_control outcome" where
  "VolumeControl_set E v self =
     (let vol = max 0 (min 100 v);
          s1 = self\<lparr>vc_effects := vc_effects self @ [ShellCall (SET_VOLUME vol)]\<rparr>
      in case subprocess_call E (SET_VOLUME vol) of
           Inr rc \<Rightarrow>
             Returns (s1\<lparr>vc_effects := vc_effects s1 @ [LogInfo (PStr (''volume: '' @ str_int vol))],
                         vc_value := Some vol\<rparr>)
         | Inl e \<Rightarrow>
             if e = ValueError \<or> e = CalledProcessError
             then Returns (s1\<lparr>vc_effects := vc_effects s1 @
                                 [LogException ''Error using amixer to adjust volume.'']\<rparr>)
             else Raises e s1)"

definition VolumeControl_increment ::
    "env \<Rightarrow> int \<Rightarrow> volume_control \<Rightarrow> volume_control outcome" where
  "VolumeControl_increment E d self =
     (case get_volume E of
        Inl e \<Rightarrow> Raises e self
      | Inr res \<Rightarrow> VolumeControl_set E (res + d) self)"

text \<open>
  \<open>tell\<close>: \<open>if not self.value\<close> holds for \<open>None\<close> and for 0, and then the volume is read
  back from the mixer. The translation function \<open>_\<close> is taken to return its argument.
\<close>

definition VolumeControl_tell :: "env \<Rightarrow> volume_control \<Rightarrow> volume_control outcome" where
  "VolumeControl_tell E self =
     (let reread =
            (case get_volume E of
               Inl e \<Rightarrow> Raises e self
             | Inr res \<Rightarrow>
                 Returns (self\<lparr>vc_value := Some res,
                              vc_effects := vc_effects self @
                                [Say (''Volume at '' @ str_int res @ '' %.'')]\<rparr>))
      in case vc_value self of
           None \<Rightarrow> reread
         | Some v \<Rightarrow>
             if v = 0 then reread
             else Returns (self\<lparr>vc_effects := vc_effects self @
                             [Say (''Volume at '' @ str_int v @ '' %.'')]\<rparr>))"

text \<open>\<open>re.search(r'\d+', mode).group()\<close>: the leftmost longest run of digits.\<close>

definition search_digits :: "string \<Rightarrow> string option" where
  "search_digits s =
     (case dropWhile (\<lambda>c. \<not> is_digit c) s of
        [] \<Rightarrow> None
      | d # ds \<Rightarrow> Some (takeWhile is_digit (d # ds)))"

text \<open>\<open>int\<close> of a string of digits.\<close>

definition int_of_digits :: "string \<Rightarrow> int" where
  "int_of_digits ds = foldl (\<lambda>a c. 10 * a + (int (of_char c) - 48)) 0 ds"

text \<open>The final \<open>self.tell()\<close> of \<open>run\<close>, reached when the call before it returned.\<close>

definition then_tell :: "env \<Rightarrow> volume_control outcome \<Rightarrow> volume_control outcome" where
  "then_tell E r =
     (case r of Returns self \<Rightarrow> VolumeControl_tell E self | Raises e self \<Rightarrow> Raises e self)"

definition VolumeControl_run ::
    "env \<Rightarrow> string \<Rightarrow> volume_control \<Rightarrow> volume_control outcome" where
  "VolumeControl_run E voice_command self =
     (let mode = command_argument (vc_keyword self) voice_command
      in if mode = ''up'' then then_tell E (VolumeControl_increment E 10 self)
         else if mode = ''down'' then then_tell E (VolumeControl_increment E (- 10) self)
         else if mode = ''max'' then then_tell E (VolumeControl_set E 100 self)
         else if mode = ''mute'' then then_tell E (VolumeControl_set E 0 self)
         else if mode \<noteq> [] then
           (case search_digits mode of
              Some ds \<Rightarrow> then_tell E (VolumeControl_set E (int_of_digits ds) self)
            | None \<Rightarrow>
                Returns (self\<lparr>vc_effects := vc_effects self @
                           [Say ''Please specify a value.'']\<rparr>))
         else VolumeControl_tell E self)"

text \<open>The commands handed to the shell, in order.\<close>

fun shell_calls :: "effect list \<Rightarrow> string list" where
  "shell_calls [] = []"
| "shell_calls (ShellCall c # es) = c # shell_calls es"
| "shell_calls (_ # es) = shell_calls es"

section \<open>Title sanitization\<close>

text \<open>
  \<open>re.findall(r'(?!_)\w+(?<!_)', title)\<close>. A match starts at a word character that is
  not an underscore. \<open>\w+\<close> is greedy, so it first takes the whole run of word
  characters; the lookbehind then makes it give back trailing underscores, and only
  those. The search resumes where the match ended.
\<close>

definition match_word :: "string \<Rightarrow> string option" where
  "match_word s =
     (case s of
        [] \<Rightarrow> None
      | c # cs \<Rightarrow>
          if c = CHR ''_'' \<or> \<not> is_word_char c then None
          else Some (rstrip_with (\<lambda>x. x = CHR ''_'') (takeWhile is_word_char s)))"

function findall_words :: "string \<Rightarrow> string list" where
  "findall_words [] = []"
| "findall_words (c # cs) =
     (case match_word (c # cs) of
        None \<Rightarrow> findall_words cs
      | Some m \<Rightarrow> m # findall_words (drop (length m - 1) cs))"
  by pat_completeness auto
termination
  by (relation "measure length") auto

definition clean_title :: "string \<Rightarrow> string" where
  "clean_title title = join '' '' (findall_words title)"

section \<open>The play session shared by the two players\<close>

text \<open>
  \<open>YouTubePlayer\<close> and \<open>TuneInRadio\<close> have the same fields and, line for line, the same
  \<open>_init_gpio\<close>, \<open>_init_player\<close>, \<open>_on_input_event\<close> and \<open>_on_player_event\<close>; they are
  modelled once. The field \<open>done\<close> of the source is \<open>finished\<close> here, and \<open>log\<close> collects
  the effects of the object in order.
\<close>

record session =
  keyword :: string
  now_playing :: pyval
  finished :: bool
  input_value :: bool
  log :: "effect list"

definition emit :: "effect \<Rightarrow> session \<Rightarrow> session" where
  "emit e self = self\<lparr>log := log self @ [e]\<rparr>"

definition init_player :: "session \<Rightarrow> session" where
  "init_player self = self\<lparr>now_playing := PNone, finished := False\<rparr>"

datatype player_event = MediaPlayerEndReached | MediaPlayerEncounteredError | MediaPlayerOther

text \<open>
  \<open>_on_input_event\<close>; \<open>level\<close> is what \<open>GPIO.input(channel)\<close> returns when the callback
  runs (0 or 1). Python compares it with the boolean \<open>input_value\<close> as a number.
\<close>

definition on_input_event :: "nat \<Rightarrow> int \<Rightarrow> session \<Rightarrow> session" where
  "on_input_event channel level self =
     (if level = (if input_value self then 1 else 0)
      then (emit PlayerStop self)\<lparr>finished := True\<rparr>
      else self)"

text \<open>\<open>_on_player_event\<close>; the concatenation raises when \<open>now_playing\<close> is not a string.\<close>

definition on_player_event :: "player_event \<Rightarrow> session \<Rightarrow> exn + session" where
  "on_player_event ev self =
     (if ev = MediaPlayerEndReached then Inr (self\<lparr>finished := True\<rparr>)
      else if ev = MediaPlayerEncounteredError then
        (case now_playing self of
           PStr label \<Rightarrow> Inr ((emit (Say (''Can't play '' @ label)) self)\<lparr>finished := True\<rparr>)
         | _ \<Rightarrow> Inl TypeError)
      else Inr self)"

text \<open>
  The callbacks are attached when the object is built and run in other execution
  contexts, one after another. An exception raised inside a callback stays in that
  context: the object is left as the callback found it.
\<close>

datatype event = InputEvent nat int | PlayerEvent player_event

fun dispatch :: "event \<Rightarrow> session \<Rightarrow> session" where
  "dispatch (InputEvent channel level) self = on_input_event channel level self"
| "dispatch (PlayerEvent ev) self =
     (case on_player_event ev self of Inl e \<Rightarrow> self | Inr self' \<Rightarrow> self')"

fun deliver :: "event list \<Rightarrow> session \<Rightarrow> session" where
  "deliver [] self = self"
| "deliver (e # es) self = deliver es (dispatch e self)"

text \<open>
  \<open>while not self.done: time.sleep(1)\<close>. A schedule lists, for each \<open>time.sleep(1)\<close>, the
  callbacks that run during it. The loop has no timeout; when the schedule is used up
  and \<open>done\<close> is still unset, nothing will set it and the loop does not return: that is
  \<open>None\<close>.
\<close>

fun wait :: "event list list \<Rightarrow> session \<Rightarrow> session option" where
  "wait [] self = (if finished self then Some self else None)"
| "wait (tick # ticks) self =
     (if finished self then Some self else wait ticks (deliver tick self))"

text \<open>
  How \<open>run\<close> ends: it returns, an exception leaves it, or it waits for ever; \<open>Blocked\<close>
  carries the object as it is when the schedule is used up.
\<close>

datatype run_result = Returned session | Raised exn session | Blocked session

text \<open>
  The last three statements of either \<open>run\<close>: \<open>self.player.play()\<close>, then
  \<open>self.done = False\<close>, then the wait loop. \<open>early\<close> lists the callbacks that run after
  \<open>play()\<close> has been called and before the flag is cleared; whatever they set, the
  assignment overwrites.
\<close>

definition play_and_wait :: "event list \<Rightarrow> event list list \<Rightarrow> session \<Rightarrow> run_result" where
  "play_and_wait early schedule self =
     (let playing = deliver early (emit PlayerPlay self);
          waiting = playing\<lparr>finished := False\<rparr>
      in case wait schedule waiting of
           None \<Rightarrow> Blocked (deliver (concat schedule) waiting)
         | Some self' \<Rightarrow> Returned self')"

text \<open>An exception raised by a subscript leaves \<open>run\<close>; otherwise \<open>run\<close> goes on.\<close>

definition or_raise :: "exn + 'a \<Rightarrow> session \<Rightarrow> ('a \<Rightarrow> run_result) \<Rightarrow> run_result" where
  "or_raise r self k = (case r of Inl e \<Rightarrow> Raised e self | Inr v \<Rightarrow> k v)"

section \<open>The cancel switch\<close>

text \<open>
  The state of the \<open>RPi.GPIO\<close> module, which all objects share: the numbering mode, the
  channels set up as inputs, and for each channel with edge detection the edge and the
  callbacks attached, in order. A callback is named by the object it belongs to.
  As the library documents, \<open>setmode\<close> refuses a second, different mode,
  \<open>add_event_detect\<close> raises \<open>RuntimeError\<close> on a channel that already has edge detection,
  and \<open>add_event_callback\<close> raises it on a channel that has none.
\<close>

datatype edge = RISING | FALLING | BOTH

datatype pull = PUD_OFF | PUD_UP | PUD_DOWN

datatype numbering = BCM | BOARD

record gpio =
  gpio_mode :: "numbering option"
  gpio_inputs :: "nat \<rightharpoonup> pull"
  gpio_events :: "nat \<rightharpoonup> edge \<times> nat list"

definition GPIO_setmode :: "numbering \<Rightarrow> gpio \<Rightarrow> exn + gpio" where
  "GPIO_setmode m g =
     (case gpio_mode g of
        None \<Rightarrow> Inr (g\<lparr>gpio_mode := Some m\<rparr>)
      | Some m' \<Rightarrow> if m' = m then Inr g else Inl ValueError)"

definition GPIO_setup :: "nat \<Rightarrow> pull \<Rightarrow> gpio \<Rightarrow> gpio" where
  "GPIO_setup channel p g = g\<lparr>gpio_inputs := (gpio_inputs g)(channel \<mapsto> p)\<rparr>"

definition GPIO_add_event_detect :: "nat \<Rightarrow> edge \<Rightarrow> nat \<Rightarrow> gpio \<Rightarrow> exn + gpio" where
  "GPIO_add_event_detect channel e cb g =
     (if gpio_inputs g channel = None then Inl RuntimeError
      else case gpio_events g channel of
             None \<Rightarrow> Inr (g\<lparr>gpio_events := (gpio_events g)(channel \<mapsto> (e, [cb]))\<rparr>)
           | Some _ \<Rightarrow> Inl RuntimeError)"

definition GPIO_add_event_callback :: "nat \<Rightarrow> nat \<Rightarrow> gpio \<Rightarrow> exn + gpio" where
  "GPIO_add_event_callback channel cb g =
     (if gpio_inputs g channel = None then Inl RuntimeError
      else case gpio_events g channel of
             None \<Rightarrow> Inl RuntimeError
           | Some (e, cbs) \<Rightarrow> Inr (g\<lparr>gpio_events := (gpio_events g)(channel \<mapsto> (e, cbs @ [cb]))\<rparr>))"

text \<open>
  \<open>_init_gpio(self, channel, polarity, pull_up_down)\<close>; \<open>me\<close> names the object whose
  \<open>_on_input_event\<close> is attached. Only \<open>RuntimeError\<close> is caught.
\<close>

definition init_gpio ::
    "nat \<Rightarrow> nat \<Rightarrow> edge \<Rightarrow> pull \<Rightarrow> session \<Rightarrow> gpio \<Rightarrow> exn + session \<times> gpio" where
  "init_gpio me channel polarity pull_up_down self g =
     (let self1 = self\<lparr>input_value := (polarity = RISING)\<rparr>
      in case GPIO_setmode BCM g of
           Inl e \<Rightarrow> Inl e
         | Inr g1 \<Rightarrow>
             (let g2 = GPIO_setup channel pull_up_down g1
              in case GPIO_add_event_detect channel polarity me g2 of
                   Inr g3 \<Rightarrow> Inr (self1, g3)
                 | Inl e \<Rightarrow>
                     if e = RuntimeError then
                       (case GPIO_add_event_callback channel me g2 of
                          Inl e' \<Rightarrow> Inl e'
                        | Inr g3 \<Rightarrow> Inr (emit (LogInfo (PStr ''Event already added'')) self1, g3))
                     else Inl e))"

text \<open>
  \<open>__init__(self, say, keyword)\<close> of either player: \<open>_init_player()\<close>, then
  \<open>_init_gpio(23)\<close> with the defaults \<open>GPIO.FALLING\<close> and \<open>GPIO.PUD_UP\<close>.
\<close>

definition player_init :: "nat \<Rightarrow> string \<Rightarrow> gpio \<Rightarrow> exn + session \<times> gpio" where
  "player_init me kw g =
     init_gpio me 23 FALLING PUD_UP
       (init_player \<lparr>keyword = kw, now_playing = PNone, finished = False,
                     input_value = False, log = []\<rparr>) g"

section \<open>YouTubePlayer\<close>

definition YouTubePlayer_run ::
    "env \<Rightarrow> event list \<Rightarrow> event list list \<Rightarrow> string \<Rightarrow> session \<Rightarrow> run_result" where
  "YouTubePlayer_run E early schedule voice_command self =
     (let track = command_argument (keyword self) voice_command
      in if track = [] then Returned (emit (Say ''Please specify a song'') self)
         else
           (let self1 = emit (ExtractInfo track) self
            in case extract_info E track of
                 Inl e \<Rightarrow> Returned (emit (Say (''Failed to find '' @ track)) self1)
               | Inr meta \<Rightarrow>
                   if \<not> truthy meta then Returned (emit (Say (''Failed to find '' @ track)) self1)
                   else
                     or_raise (getitem meta ''entries'') self1 (\<lambda>entries.
                     or_raise (getitem0 entries) self1 (\<lambda>track_info.
                       if \<not> truthy track_info
                       then Returned (emit (Say (''Failed to find '' @ track)) self1)
                       else
                         or_raise (getitem track_info ''url'') self1 (\<lambda>url.
                           (let self2 = emit (SetMedia url) (emit (MediaNew url)
                                          (emit (LogDebug url) self1))
                            in or_raise (getitem track_info ''title'') self2 (\<lambda>title.
                                 case title of
                                   PStr t \<Rightarrow>
                                     (let self3 = self2\<lparr>now_playing := PStr (clean_title t)\<rparr>;
                                          self4 = emit (Say (''Now playing '' @ clean_title t))
                                                    (emit (LogInfo (PStr (clean_title t))) self3)
                                      in play_and_wait early schedule self4)
                                 | _ \<Rightarrow> Raised TypeError self2)))))))"

section \<open>TuneInRadio\<close>

definition BASE_URL :: string where
  "BASE_URL = ''http://tunein.com/''"

definition FILTER_STATIONS :: string where
  "FILTER_STATIONS = ''Stations''"

definition newline :: char where
  "newline = CHR 0x0A"

definition dquote :: char where
  "dquote = CHR 0x22"

text \<open>\<open>bytes.decode('ascii', 'ignore')\<close>: bytes above 127 are dropped.\<close>

definition decode_ascii_ignore :: "string \<Rightarrow> string" where
  "decode_ascii_ignore bs = filter (\<lambda>c. (of_char c :: nat) < 128) bs"

text \<open>
  \<open>re.search(pattern, s)\<close>: the leftmost position where the pattern matches; the result is
  group 1 of the match, \<open>None\<close> when there is no match. Neither pattern matches the empty
  string.
\<close>

fun re_search :: "(string \<Rightarrow> string option) \<Rightarrow> string \<Rightarrow> string option" where
  "re_search m [] = None"
| "re_search m (c # cs) =
     (case m (c # cs) of Some g \<Rightarrow> Some g | None \<Rightarrow> re_search m cs)"

text \<open>
  \<open>r'TuneIn.payload = (\{.*\})'\<close> at the start of \<open>s\<close>: the dot after \<open>TuneIn\<close> is any
  character but a newline; the greedy \<open>.*\<close> stays on the line and ends at its last
  closing brace.
\<close>

definition match_payload :: "string \<Rightarrow> string option" where
  "match_payload s =
     (if take 6 s = ''TuneIn'' then
        (case drop 6 s of
           [] \<Rightarrow> None
         | d # rest \<Rightarrow>
             if d = newline then None
             else if take 11 rest = ''payload = {'' then
               (let line = takeWhile (\<lambda>c. c \<noteq> newline) (drop 11 rest);
                    body = rstrip_with (\<lambda>c. c \<noteq> CHR ''}'') line
                in if body = [] then None else Some (CHR ''{'' # body))
             else None)
      else None)"

text \<open>
  \<open>r'"StreamUrl":"(.*?)"'\<close> at the start of \<open>s\<close>: the lazy group ends at the next double
  quote, which has to come before the end of the line.
\<close>

definition match_stream_url :: "string \<Rightarrow> string option" where
  "match_stream_url s =
     (if take 13 s = dquote # ''StreamUrl'' @ [dquote, CHR '':'', dquote] then
        (let g = takeWhile (\<lambda>c. c \<noteq> dquote \<and> c \<noteq> newline) (drop 13 s)
         in case drop (length g) (drop 13 s) of
              [] \<Rightarrow> None
            | c # _ \<Rightarrow> if c = dquote then Some g else None)
      else None)"

text \<open>The \<open>for\<close> loop of \<open>_search\<close>: the first category whose title is the filter.\<close>

fun find_category :: "string \<Rightarrow> pyval list \<Rightarrow> exn + pyval" where
  "find_category search_filter [] = Inr PNone"
| "find_category search_filter (category # rest) =
     (case getitem category ''Title'' of
        Inl e \<Rightarrow> Inl e
      | Inr title \<Rightarrow>
          if title = PStr search_filter then getitem category ''GuideItems''
          else find_category search_filter rest)"

text \<open>A fetch: \<open>logging.debug(url)\<close>, \<open>urlopen\<close>, \<open>read\<close>, \<open>decode\<close>.\<close>

definition fetch :: "env \<Rightarrow> string \<Rightarrow> session \<Rightarrow> (exn + string) \<times> session" where
  "fetch E url self =
     (let self1 = emit (UrlOpen url) (emit (LogDebug (PStr url)) self)
      in case urlopen_read E url of
           Inl e \<Rightarrow> (Inl e, self1)
         | Inr bs \<Rightarrow> (Inr (decode_ascii_ignore bs), self1))"

definition TuneInRadio_search ::
    "env \<Rightarrow> string \<Rightarrow> string \<Rightarrow> session \<Rightarrow> (exn + pyval) \<times> session" where
  "TuneInRadio_search E search_str search_filter self =
     (case fetch E (BASE_URL @ ''search/?query='' @ quote E search_str) self of
        (Inl e, self1) \<Rightarrow> (Inl e, self1)
      | (Inr xml_str, self1) \<Rightarrow>
          (case re_search match_payload xml_str of
             None \<Rightarrow> (Inr PNone, self1)
           | Some payload \<Rightarrow>
               (case json_loads E payload of
                  Inl e \<Rightarrow> (Inl e, self1)
                | Inr result \<Rightarrow>
                    (case getitem result ''ContainerGuideItems'' of
                       Inl e \<Rightarrow> (Inl e, self1)
                     | Inr items \<Rightarrow>
                         (case getitem items ''containers'' of
                            Inl e \<Rightarrow> (Inl e, self1)
                          | Inr categories \<Rightarrow>
                              (case iterate categories of
                                 Inl e \<Rightarrow> (Inl e, self1)
                               | Inr cs \<Rightarrow> (find_category search_filter cs, self1)))))))"

definition TuneInRadio_get_stream_list ::
    "env \<Rightarrow> string \<Rightarrow> session \<Rightarrow> (exn + pyval) \<times> session" where
  "TuneInRadio_get_stream_list E url self =
     (case fetch E url self of
        (Inl e, self1) \<Rightarrow> (Inl e, self1)
      | (Inr json_str, self1) \<Rightarrow>
          (case json_loads E json_str of
             Inl e \<Rightarrow> (Inl e, self1)
           | Inr result \<Rightarrow> (getitem result ''Streams'', self1)))"

text \<open>
  \<open>_get_stream_url\<close>. The source tests \<open>result.group(1)\<close>, not \<open>result\<close>: when the pattern
  is not found, \<open>result\<close> is \<open>None\<close> and the attribute access raises.
\<close>

definition TuneInRadio_get_stream_url ::
    "env \<Rightarrow> pyval \<Rightarrow> session \<Rightarrow> (exn + pyval) \<times> session" where
  "TuneInRadio_get_stream_url E station_id self =
     (case fetch E (BASE_URL @ ''station/?stationId='' @ py_str E station_id) self of
        (Inl e, self1) \<Rightarrow> (Inl e, self1)
      | (Inr xml_str, self1) \<Rightarrow>
          (case re_search match_stream_url xml_str of
             None \<Rightarrow> (Inl AttributeError, self1)
           | Some g \<Rightarrow>
               if g = [] then (Inr PNone, self1)
               else
                 (case TuneInRadio_get_stream_list E (''http:'' @ g) self1 of
                    (Inl e, self2) \<Rightarrow> (Inl e, self2)
                  | (Inr streams, self2) \<Rightarrow>
                      if \<not> truthy streams then (Inr PNone, self2)
                      else
                        (case getitem0 streams of
                           Inl e \<Rightarrow> (Inl e, self2)
                         | Inr stream \<Rightarrow> (getitem stream ''Url'', self2)))))"

definition TuneInRadio_run ::
    "env \<Rightarrow> event list \<Rightarrow> event list list \<Rightarrow> string \<Rightarrow> session \<Rightarrow> run_result" where
  "TuneInRadio_run E early schedule voice_command self =
     (let search_str = command_argument (keyword self) voice_command
      in if search_str = [] then Returned (emit (Say ''Please specify a station'') self)
         else
           (case TuneInRadio_search E search_str FILTER_STATIONS self of
              (r, self1) \<Rightarrow>
                or_raise r self1 (\<lambda>stations.
                  if \<not> truthy stations
                  then Returned (emit (Say ''Didn't find any stations'') self1)
                  else
                    or_raise (getitem0 stations) self1 (\<lambda>station.
                    or_raise (getitem station ''Id'') self1 (\<lambda>station_id.
                      (case TuneInRadio_get_stream_url E station_id self1 of
                         (r2, self2) \<Rightarrow>
                           or_raise r2 self2 (\<lambda>url.
                             if \<not> truthy url
                             then Returned (emit (Say ''Didn't find any streams'') self2)
                             else
                               (let self3 = emit (SetMedia url) (emit (MediaNew url)
                                              (emit (LogDebug url) self2))
                                in or_raise (getitem station ''Title'') self3 (\<lambda>title.
                                     (let self4 = emit (LogInfo title)
                                                    (self3\<lparr>now_playing := title\<rparr>)
                                      in case title of
                                           PStr t \<Rightarrow>
                                             play_and_wait early schedule
                                               (emit (Say (''Now playing '' @ t)) self4)
                                         | _ \<Rightarrow> Raised TypeError self4))))))))))"

section \<open>Concrete scenarios\<close>

text \<open>Collaborators that find nothing: every search and every fetch fails.\<close>

definition silent_env :: env where
  "silent_env =
     \<lparr>extract_info = (\<lambda>q. Inl DownloadError),
      urlopen_read = (\<lambda>u. Inl URLError),
      json_loads = (\<lambda>s. Inl ValueError),
      quote = (\<lambda>s. s),
      container_str = (\<lambda>v. []),
      subprocess_call = (\<lambda>c. Inr 0),
      get_volume = Inr 50\<rparr>"

text \<open>A video search with one result, titled \<open>Daylight_Official_Video\<close>.\<close>

definition daylight_env :: env where
  "daylight_env =
     silent_env\<lparr>extract_info := (\<lambda>q. Inr (PDict [(''entries'', PList [PDict
       [(''url'', PStr ''http://v/1''), (''title'', PStr ''Daylight_Official_Video'')]])]))\<rparr>"

definition play_session :: session where
  "play_session =
     \<lparr>keyword = ''play'', now_playing = PNone, finished = False, input_value = False, log = []\<rparr>"

definition radio_session :: session where
  "radio_session =
     \<lparr>keyword = ''radio'', now_playing = PNone, finished = False, input_value = False, log = []\<rparr>"

text \<open>A session that is playing \<open>Daylight\<close>, and the same session once it is done.\<close>

definition playing_session :: session where
  "playing_session =
     \<lparr>keyword = ''play'', now_playing = PStr ''Daylight'', finished = False,
      input_value = False, log = [Say ''Now playing Daylight'', PlayerPlay]\<rparr>"

text \<open>
  A radio directory whose search page embeds a payload. \<open>jazz_payload\<close> has a
  \<open>Stations\<close> category with one station; \<open>shows_payload\<close> has no such category.
\<close>

definition search_page :: string where
  "search_page = ''<script>TuneIn.payload = {};</script>''"

definition jazz_payload :: pyval where
  "jazz_payload =
     PDict [(''ContainerGuideItems'', PDict [(''containers'', PList
       [PDict [(''Title'', PStr ''Stations''),
               (''GuideItems'', PList [PDict [(''Id'', PStr ''s1''),
                                              (''Title'', PStr ''Jazz FM'')]])]])])]"

definition shows_payload :: pyval where
  "shows_payload =
     PDict [(''ContainerGuideItems'', PDict [(''containers'', PList
       [PDict [(''Title'', PStr ''Shows''), (''GuideItems'', PList [])]])])]"

text \<open>
  \<open>radio_env payload detail\<close>: the search page decodes to \<open>payload\<close>; every other URL
  returns the body \<open>detail\<close>.
\<close>

definition radio_env :: "pyval \<Rightarrow> string \<Rightarrow> env" where
  "radio_env payload detail =
     silent_env\<lparr>urlopen_read :=
                  (\<lambda>u. if u = ''http://tunein.com/search/?query=jazz'' then Inr search_page
                       else Inr detail),
                json_loads := (\<lambda>s. Inr payload)\<rparr>"

text \<open>The module state of \<open>RPi.GPIO\<close> before anything is set up.\<close>

definition fresh_gpio :: gpio where
  "fresh_gpio = \<lparr>gpio_mode = None, gpio_inputs = Map.empty, gpio_events = Map.empty\<rparr>"

text \<open>The module state once object 1 has armed channel 23 with the defaults.\<close>

definition armed_gpio :: gpio where
  "armed_gpio =
     \<lparr>gpio_mode = Some BCM, gpio_inputs = [23 \<mapsto> PUD_UP],
      gpio_events = [23 \<mapsto> (FALLING, [1])]\<rparr>"


section \<open>Properties\<close>

subsection \<open>Helper facts\<close>

lemma shell_calls_append: "shell_calls (xs @ ys) = shell_calls xs @ shell_calls ys"
  by (induction xs rule: shell_calls.induct) auto

lemma strip_all_space: "list_all isspace s \<Longrightarrow> strip s = []"
proof -
  assume "list_all isspace s"
  then have h: "dropWhile isspace s = []"
    by (simp add: list_all_iff)
  show ?thesis
    unfolding strip_def rstrip_with_def h by simp
qed

lemma strip_Nil_iff: "strip s = [] \<longleftrightarrow> list_all isspace s"
proof
  assume "strip s = []"
  then have "dropWhile isspace (rev (dropWhile isspace s)) = []"
    by (simp add: strip_def rstrip_with_def)
  then have a: "\<forall>c \<in> set (dropWhile isspace s). isspace c"
    by (simp add: dropWhile_eq_Nil_conv)
  show "list_all isspace s"
  proof (cases "dropWhile isspace s")
    case Nil
    then show ?thesis by (simp add: dropWhile_eq_Nil_conv list_all_iff)
  next
    case (Cons c cs)
    then have "\<not> isspace c" using hd_dropWhile[of isspace s] by simp
    with a Cons show ?thesis by simp
  qed
qed (rule strip_all_space)

lemmas text_eval =
  command_argument_def strip_def rstrip_with_def isspace_def lower_def lower_char_def
  char_of_def bit_Suc_0_iff

lemmas radio_eval =
  TuneInRadio_run_def TuneInRadio_search_def TuneInRadio_get_stream_url_def
  TuneInRadio_get_stream_list_def fetch_def decode_ascii_ignore_def match_payload_def
  match_stream_url_def newline_def dquote_def BASE_URL_def FILTER_STATIONS_def
  or_raise_def emit_def Let_def radio_env_def silent_env_def search_page_def radio_session_def







lemma wait_finished: "finished self \<Longrightarrow> wait ticks self = Some self"
  by (cases ticks) simp_all

lemma dispatch_finished: "finished self \<Longrightarrow> finished (dispatch e self)"
  by (cases e) (auto simp: on_input_event_def on_player_event_def emit_def split: pyval.splits)

lemma deliver_finished: "finished self \<Longrightarrow> finished (deliver es self)"
  by (induction es arbitrary: self) (simp_all add: dispatch_finished)

lemma dispatch_fields:
  "keyword (dispatch e self) = keyword self \<and> now_playing (dispatch e self) = now_playing self
   \<and> input_value (dispatch e self) = input_value self"
  by (cases e) (auto simp: on_input_event_def on_player_event_def emit_def split: pyval.splits)

lemma deliver_fields:
  "keyword (deliver es self) = keyword self \<and> now_playing (deliver es self) = now_playing self
   \<and> input_value (deliver es self) = input_value self"
  by (induction es arbitrary: self) (simp_all add: dispatch_fields)

subsection \<open>Volume clamping\<close>

lemma shell_calls_set:
  "shell_calls (vc_effects (state_of (VolumeControl_set E v self))) =
     shell_calls (vc_effects self) @ [SET_VOLUME (max 0 (min 100 v))]"
  by (auto simp: VolumeControl_set_def Let_def shell_calls_append split: sum.splits)

lemma shell_calls_tell:
  "shell_calls (vc_effects (state_of (VolumeControl_tell E self))) = shell_calls (vc_effects self)"
  by (auto simp: VolumeControl_tell_def Let_def shell_calls_append split: sum.splits option.splits)

lemma shell_calls_then_tell:
  "shell_calls (vc_effects (state_of (then_tell E r))) = shell_calls (vc_effects (state_of r))"
  by (cases r) (simp_all add: then_tell_def shell_calls_tell)

lemma shell_calls_increment:
  "shell_calls (vc_effects (state_of (VolumeControl_increment E d self))) =
     shell_calls (vc_effects self) @
       (case get_volume E of
          Inl e \<Rightarrow> []
        | Inr res \<Rightarrow> [SET_VOLUME (max 0 (min 100 (res + d)))])"
  by (simp add: VolumeControl_increment_def shell_calls_set split: sum.splits)

lemma in_commands: "0 \<le> v \<Longrightarrow> v \<le> 100 \<Longrightarrow> SET_VOLUME v \<in> SET_VOLUME ` {0..100}"
  by simp

lemma run_commands:
  "\<exists>cs. shell_calls (vc_effects (state_of (VolumeControl_run E voice_command self))) =
          shell_calls (vc_effects self) @ cs
        \<and> list_all (\<lambda>c. c \<in> SET_VOLUME ` {0..100}) cs"
  by (auto simp: VolumeControl_run_def Let_def shell_calls_then_tell shell_calls_set
      shell_calls_increment shell_calls_tell shell_calls_append in_commands
      split: option.splits sum.splits)

text \<open>
  C10. Whatever integer \<open>set\<close> is given, the volume in the mixer command it issues is
  \<open>max 0 (min 100 v)\<close>, which lies between 0 and 100, and \<open>self.value\<close> becomes that
  number when the command returns and is left alone when it raises. \<open>increment\<close> hands
  the volume read back plus its argument to \<open>set\<close>, so the command it issues carries the
  clamped sum. Every mixer command a voice command makes \<open>run\<close> issue sets a volume
  between 0 and 100.
\<close>

theorem VolumeControl_set_clamps:
  "(let vol = max 0 (min 100 v); self' = state_of (VolumeControl_set E v self)
    in 0 \<le> vol \<and> vol \<le> 100 \<and>
       shell_calls (vc_effects self') = shell_calls (vc_effects self) @ [SET_VOLUME vol] \<and>
       vc_value self' =
         (case subprocess_call E (SET_VOLUME vol) of Inr rc \<Rightarrow> Some vol | Inl e \<Rightarrow> vc_value self))
   \<and> (case get_volume E of
        Inl e \<Rightarrow> VolumeControl_increment E d self = Raises e self
      | Inr res \<Rightarrow>
          shell_calls (vc_effects (state_of (VolumeControl_increment E d self))) =
            shell_calls (vc_effects self) @ [SET_VOLUME (max 0 (min 100 (res + d)))])
   \<and> (\<exists>cs. shell_calls (vc_effects (state_of (VolumeControl_run E voice_command self))) =
               shell_calls (vc_effects self) @ cs
             \<and> list_all (\<lambda>c. c \<in> SET_VOLUME ` {0..100}) cs)"
proof -
  have "vc_value (state_of (VolumeControl_set E v self)) =
          (case subprocess_call E (SET_VOLUME (max 0 (min 100 v))) of
             Inr rc \<Rightarrow> Some (max 0 (min 100 v))
           | Inl e \<Rightarrow> vc_value self)"
    by (auto simp: VolumeControl_set_def Let_def split: sum.splits)
  moreover have "case get_volume E of
        Inl e \<Rightarrow> VolumeControl_increment E d self = Raises e self
      | Inr res \<Rightarrow>
          shell_calls (vc_effects (state_of (VolumeControl_increment E d self))) =
            shell_calls (vc_effects self) @ [SET_VOLUME (max 0 (min 100 (res + d)))]"
    by (simp add: VolumeControl_increment_def shell_calls_set split: sum.splits)
  ultimately show ?thesis
    using run_commands[of E voice_command self]
    by (simp add: Let_def shell_calls_set)
qed

subsection \<open>Empty queries\<close>

text \<open>
  C2. When what is left of the command after lowering it and removing the keyword is
  empty or only whitespace, \<open>run\<close> of either player returns at once: the only effect is
  one spoken request to specify a song or a station, so no search, no fetch and no call
  on the player happens.
\<close>

theorem empty_query_short_circuit:
  assumes "list_all isspace (remove_first (keyword self) (lower voice_command))"
  shows "YouTubePlayer_run E early schedule voice_command self =
           Returned (self\<lparr>log := log self @ [Say ''Please specify a song'']\<rparr>)
       \<and> TuneInRadio_run E early schedule voice_command self =
           Returned (self\<lparr>log := log self @ [Say ''Please specify a station'']\<rparr>)"
  using strip_all_space[OF assms]
  by (simp add: YouTubePlayer_run_def TuneInRadio_run_def command_argument_def emit_def)

theorem empty_query_short_circuit_witness:
  "list_all isspace (remove_first (keyword play_session) (lower ''Play   ''))
   \<and> YouTubePlayer_run daylight_env [] [] ''Play   '' play_session =
       Returned (play_session\<lparr>log := [Say ''Please specify a song'']\<rparr>)
   \<and> TuneInRadio_run daylight_env [] [] ''Play   '' play_session =
       Returned (play_session\<lparr>log := [Say ''Please specify a station'']\<rparr>)"
proof -
  have h: "list_all isspace (remove_first (keyword play_session) (lower ''Play   ''))"
    by (simp add: play_session_def text_eval)
  have l: "log play_session = []"
    by (simp add: play_session_def)
  show ?thesis
    using h empty_query_short_circuit[OF h, of daylight_env "[]" "[]"] by (simp add: l)
qed

subsection \<open>Title sanitization\<close>

text \<open>
  C1. The label spoken for the title \<open>foo_bar__42!!baz\<close> is \<open>foo_bar__42 baz\<close>: the
  pattern drops punctuation and the underscores at the two ends of a run of word
  characters, and keeps the underscores inside a run.
\<close>

theorem clean_title_keeps_inner_underscores:
  "clean_title ''foo_bar__42!!baz'' = ''foo_bar__42 baz''
   \<and> clean_title ''foo_bar__42!!baz'' \<noteq> ''foo bar 42 baz''
   \<and> clean_title ''Daylight_Official_Video'' = ''Daylight_Official_Video''"
  by (simp add: clean_title_def match_word_def rstrip_with_def is_word_char_def)

subsection \<open>Searches that find nothing\<close>

text \<open>
  C3, as stated, fails on the radio path: a radio search with no \<open>Stations\<close> category
  ends with the fixed sentence \<open>Didn't find any stations\<close>, which carries no query text.
\<close>

theorem no_stations_counterexample:
  "TuneInRadio_run (radio_env shows_payload []) [] [] ''radio jazz'' radio_session =
     Returned (radio_session\<lparr>log :=
       [LogDebug (PStr ''http://tunein.com/search/?query=jazz''),
        UrlOpen ''http://tunein.com/search/?query=jazz'',
        Say ''Didn't find any stations'']\<rparr>)"
  by (simp add: radio_eval text_eval shows_payload_def)

text \<open>
  C3, amended. For a non-empty query: when the video search raises, returns a false
  value, or returns a first entry that is false, \<open>run\<close> returns after the single sentence
  \<open>Failed to find\<close> followed by the query; when the radio search returns a false value
  (\<open>None\<close> or an empty list), \<open>run\<close> returns after the single sentence
  \<open>Didn't find any stations\<close>.
\<close>

theorem no_candidates_report:
  assumes "command_argument (keyword self) voice_command = query" and "query \<noteq> []"
  shows "((\<exists>e. extract_info E query = Inl e)
          \<or> (\<exists>meta. extract_info E query = Inr meta \<and> \<not> truthy meta)
          \<or> (\<exists>meta entries info. extract_info E query = Inr meta
                \<and> getitem meta ''entries'' = Inr entries
                \<and> getitem0 entries = Inr info \<and> \<not> truthy info)
          \<longrightarrow> YouTubePlayer_run E early schedule voice_command self =
                Returned (self\<lparr>log := log self @
                  [ExtractInfo query, Say (''Failed to find '' @ query)]\<rparr>))
      \<and> (\<forall>stations self1.
            TuneInRadio_search E query FILTER_STATIONS self = (Inr stations, self1)
            \<and> \<not> truthy stations
          \<longrightarrow> TuneInRadio_run E early schedule voice_command self =
                Returned (self1\<lparr>log := log self1 @ [Say ''Didn't find any stations'']\<rparr>))"
  using assms
  by (auto simp: YouTubePlayer_run_def TuneInRadio_run_def or_raise_def emit_def Let_def)

theorem no_candidates_report_witness:
  "command_argument (keyword play_session) ''play xyzzy'' = ''xyzzy''
   \<and> YouTubePlayer_run silent_env [] [] ''play xyzzy'' play_session =
       Returned (play_session\<lparr>log := [ExtractInfo ''xyzzy'', Say ''Failed to find xyzzy'']\<rparr>)
   \<and> command_argument (keyword radio_session) ''radio jazz'' = ''jazz''
   \<and> TuneInRadio_run (radio_env shows_payload []) [] [] ''radio jazz'' radio_session =
       Returned (radio_session\<lparr>log :=
         [LogDebug (PStr ''http://tunein.com/search/?query=jazz''),
          UrlOpen ''http://tunein.com/search/?query=jazz'',
          Say ''Didn't find any stations'']\<rparr>)"
proof -
  have a: "command_argument (keyword play_session) ''play xyzzy'' = ''xyzzy''"
    by (simp add: play_session_def text_eval)
  have b: "''xyzzy'' \<noteq> []"
    by simp
  have c: "\<exists>e. extract_info silent_env ''xyzzy'' = Inl e"
    by (simp add: silent_env_def)
  have l: "log play_session = []"
    by (simp add: play_session_def)
  have v: "YouTubePlayer_run silent_env [] [] ''play xyzzy'' play_session =
       Returned (play_session\<lparr>log := [ExtractInfo ''xyzzy'', Say ''Failed to find xyzzy'']\<rparr>)"
    using no_candidates_report[OF a b, of silent_env "[]" "[]"] c by (simp add: l)
  have a': "command_argument (keyword radio_session) ''radio jazz'' = ''jazz''"
    by (simp add: radio_session_def text_eval)
  have b': "''jazz'' \<noteq> []"
    by simp
  let ?s1 = "radio_session\<lparr>log :=
         [LogDebug (PStr ''http://tunein.com/search/?query=jazz''),
          UrlOpen ''http://tunein.com/search/?query=jazz'']\<rparr>"
  have c': "TuneInRadio_search (radio_env shows_payload []) ''jazz'' FILTER_STATIONS radio_session
              = (Inr PNone, ?s1)"
    by (simp add: radio_eval shows_payload_def)
  have r: "TuneInRadio_run (radio_env shows_payload []) [] [] ''radio jazz'' radio_session =
       Returned (?s1\<lparr>log := log ?s1 @ [Say ''Didn't find any stations'']\<rparr>)"
    using no_candidates_report[OF a' b', of "radio_env shows_payload []" "[]" "[]"] c' by simp
  show ?thesis
    using a v a' r by simp
qed

subsection \<open>Radio resolution failures\<close>

text \<open>
  C4. On the radio path a station page without the \<open>StreamUrl\<close> marker makes \<open>run\<close> end
  with \<open>AttributeError\<close>, and a failed fetch makes it end with the fetch's exception; in
  both cases nothing has been spoken.
\<close>

theorem missing_stream_marker_raises:
  "TuneInRadio_run (radio_env jazz_payload ''<html></html>'') [] [] ''radio jazz'' radio_session =
     Raised AttributeError (radio_session\<lparr>log :=
       [LogDebug (PStr ''http://tunein.com/search/?query=jazz''),
        UrlOpen ''http://tunein.com/search/?query=jazz'',
        LogDebug (PStr ''http://tunein.com/station/?stationId=s1''),
        UrlOpen ''http://tunein.com/station/?stationId=s1'']\<rparr>)
   \<and> TuneInRadio_run silent_env [] [] ''radio jazz'' radio_session =
     Raised URLError (radio_session\<lparr>log :=
       [LogDebug (PStr ''http://tunein.com/search/?query=jazz''),
        UrlOpen ''http://tunein.com/search/?query=jazz'']\<rparr>)"
  by (simp add: radio_eval text_eval jazz_payload_def)

subsection \<open>Cancellation\<close>



subsection \<open>Arming a channel twice\<close>

text \<open>
  C6. When the channel already has edge detection (and the numbering mode is not the
  other one), \<open>_init_gpio\<close> returns: it logs \<open>Event already added\<close> and the callback of
  this object is appended to the callbacks of the channel.
\<close>

theorem rearm_bound_channel:
  assumes "gpio_events g channel = Some (e, cbs)"
    and "gpio_mode g \<noteq> Some BOARD"
  shows "\<exists>g'. init_gpio me channel polarity pull_up_down self g =
                Inr (self\<lparr>input_value := (polarity = RISING),
                          log := log self @ [LogInfo (PStr ''Event already added'')]\<rparr>, g')
             \<and> gpio_events g' = (gpio_events g)(channel \<mapsto> (e, cbs @ [me]))"
proof -
  have m: "gpio_mode g = None \<or> gpio_mode g = Some BCM"
    using assms(2) by (cases "gpio_mode g") (auto intro: numbering.exhaust)
  then show ?thesis
    using assms(1)
    by (auto simp: init_gpio_def GPIO_setmode_def GPIO_setup_def GPIO_add_event_detect_def
        GPIO_add_event_callback_def emit_def Let_def)
qed

theorem rearm_bound_channel_witness:
  "gpio_events armed_gpio 23 = Some (FALLING, [1])
   \<and> gpio_mode armed_gpio \<noteq> Some BOARD
   \<and> (\<exists>g'. player_init 2 ''radio'' armed_gpio =
              Inr (\<lparr>keyword = ''radio'', now_playing = PNone, finished = False,
                    input_value = False,
                    log = [LogInfo (PStr ''Event already added'')]\<rparr>, g')
            \<and> gpio_events g' 23 = Some (FALLING, [1, 2]))"
proof -
  have a: "gpio_events armed_gpio 23 = Some (FALLING, [1])"
    by (simp add: armed_gpio_def)
  have b: "gpio_mode armed_gpio \<noteq> Some BOARD"
    by (simp add: armed_gpio_def)
  show ?thesis
    using a b rearm_bound_channel[OF a b, of 2 FALLING PUD_UP
        "init_player \<lparr>keyword = ''radio'', now_playing = PNone, finished = False,
                       input_value = False, log = []\<rparr>"]
    by (auto simp: player_init_def init_player_def)
qed

subsection \<open>The level guard\<close>

text \<open>
  C9. After \<open>_init_gpio\<close> with a polarity, the interrupt callback stops the player and
  sets \<open>done\<close> exactly when the pin reads 1 for \<open>RISING\<close> and 0 otherwise (so low for the
  default \<open>FALLING\<close>); at the other level it leaves the object as it is.
\<close>

theorem level_guard:
  assumes "init_gpio me channel polarity pull_up_down self g = Inr (self', g')"
    and "input_value later = input_value self'"
  shows "on_input_event c level later =
           (if level = (if polarity = RISING then 1 else 0)
            then later\<lparr>log := log later @ [PlayerStop], finished := True\<rparr>
            else later)"
proof -
  have "input_value self' = (polarity = RISING)"
    using assms(1)
    by (auto simp: init_gpio_def Let_def emit_def split: sum.splits if_splits)
  with assms(2) show ?thesis
    by (simp add: on_input_event_def emit_def)
qed

theorem level_guard_witness:
  "player_init 1 ''play'' fresh_gpio = Inr (play_session, armed_gpio)
   \<and> on_input_event 23 0 playing_session =
       playing_session\<lparr>log := [Say ''Now playing Daylight'', PlayerPlay, PlayerStop],
                        finished := True\<rparr>
   \<and> on_input_event 23 1 playing_session = playing_session"
proof -
  have a: "init_gpio 1 23 FALLING PUD_UP play_session fresh_gpio = Inr (play_session, armed_gpio)"
    by (simp add: init_gpio_def GPIO_setmode_def GPIO_setup_def GPIO_add_event_detect_def
        fresh_gpio_def armed_gpio_def play_session_def Let_def)
  have b: "input_value playing_session = input_value play_session"
    by (simp add: playing_session_def play_session_def)
  have p: "player_init 1 ''play'' fresh_gpio = Inr (play_session, armed_gpio)"
    using a by (simp add: player_init_def init_player_def play_session_def)
  have l: "log playing_session = [Say ''Now playing Daylight'', PlayerPlay]"
    by (simp add: playing_session_def)
  show ?thesis
    using p level_guard[OF a b, of 23 0] level_guard[OF a b, of 23 1]
    by (simp add: l)
qed

subsection \<open>Speech at the end of a session\<close>



subsection \<open>Callbacks after the session is done\<close>

text \<open>
  C8, as stated, fails: a callback that runs after the session is done is not a no-op.
  After the end of the stream a press still calls \<open>stop()\<close>, and after a press a playback
  error still speaks.
\<close>

theorem late_callback_counterexample:
  "deliver [PlayerEvent MediaPlayerEndReached] playing_session =
     playing_session\<lparr>finished := True\<rparr>
   \<and> deliver [PlayerEvent MediaPlayerEndReached, InputEvent 23 0] playing_session =
     playing_session\<lparr>finished := True,
        log := [Say ''Now playing Daylight'', PlayerPlay, PlayerStop]\<rparr>
   \<and> deliver [InputEvent 23 0, PlayerEvent MediaPlayerEncounteredError] playing_session =
     playing_session\<lparr>finished := True,
        log := [Say ''Now playing Daylight'', PlayerPlay, PlayerStop, Say ''Can't play Daylight'']\<rparr>"
  by (simp add: playing_session_def on_player_event_def on_input_event_def emit_def)

text \<open>
  C8, amended. The callbacks only ever set \<open>done\<close>: once it is set it stays set under
  every sequence of callbacks, in any order, the wait loop returns at its next test, and
  no callback changes the label, the keyword or the level the switch compares with.
\<close>

theorem finished_is_sticky:
  "(finished self \<longrightarrow> finished (deliver events self) \<and> wait schedule self = Some self)
   \<and> now_playing (deliver events self) = now_playing self
   \<and> keyword (deliver events self) = keyword self
   \<and> input_value (deliver events self) = input_value self"
  by (simp add: deliver_finished wait_finished deliver_fields)

theorem finished_is_sticky_witness:
  "finished (playing_session\<lparr>finished := True\<rparr>)
   \<and> finished (deliver [InputEvent 23 0, PlayerEvent MediaPlayerEncounteredError]
        (playing_session\<lparr>finished := True\<rparr>))
   \<and> wait [[PlayerEvent MediaPlayerEndReached]] (playing_session\<lparr>finished := True\<rparr>) =
       Some (playing_session\<lparr>finished := True\<rparr>)"
  using finished_is_sticky[of "playing_session\<lparr>finished := True\<rparr>"
      "[InputEvent 23 0, PlayerEvent MediaPlayerEncounteredError]"
      "[[PlayerEvent MediaPlayerEndReached]]"]
  by simp

end
